theory Spec2Isabelle
  imports Main
begin

section \<open>Values exchanged with the remote issue store\<close>

text \<open>
  The store answers in JSON, and the program works on the decoded values with Python's
  dictionary and list operations. A decoded object is an association list standing for
  the dictionary it denotes (the first binding of a key is the one looked up).
\<close>

datatype json =
    JNull
  | JBool bool
  | JNum int
  | JStr string
  | JArr "json list"
  | JObj "(string \<times> json) list"

text \<open>
  The exceptions the program can raise: the two \<open>ValueError\<close>s of the adapter
  (no credential; a search answered with a status other than 200), the \<open>Exception\<close>s
  of the point operations (with the status received), and the interpreter's own errors
  on a value of the wrong shape.
\<close>

datatype error =
    ConfigError
  | JiraApiError nat
  | FetchIssueFailed nat
  | UpdateLabelsFailed nat
  | KeyError string
  | AttributeError
  | TypeError
  | JSONDecodeError
  | IndexError

definition bindE :: "error + 'a \<Rightarrow> ('a \<Rightarrow> error + 'b) \<Rightarrow> error + 'b" where
  "bindE m f = (case m of Inl e \<Rightarrow> Inl e | Inr x \<Rightarrow> f x)"

fun mapE :: "('a \<Rightarrow> error + 'b) \<Rightarrow> 'a list \<Rightarrow> error + 'b list" where
  "mapE f [] = Inr []"
| "mapE f (x # xs) = bindE (f x) (\<lambda>y. bindE (mapE f xs) (\<lambda>ys. Inr (y # ys)))"

text \<open>Truth value of a decoded value (\<open>if x:\<close>).\<close>

fun truthy :: "json \<Rightarrow> bool" where
  "truthy JNull = False"
| "truthy (JBool b) = b"
| "truthy (JNum n) = (n \<noteq> 0)"
| "truthy (JStr s) = (s \<noteq> [])"
| "truthy (JArr xs) = (xs \<noteq> [])"
| "truthy (JObj kvs) = (kvs \<noteq> [])"

text \<open>\<open>v[k]\<close> with a string key: KeyError on a dictionary without the key, TypeError on
  anything that is not a dictionary.\<close>

fun subscript :: "json \<Rightarrow> string \<Rightarrow> error + json" where
  "subscript (JObj kvs) k = (case map_of kvs k of None \<Rightarrow> Inl (KeyError k) | Some v \<Rightarrow> Inr v)"
| "subscript _ k = Inl TypeError"

text \<open>\<open>v.get(k, d)\<close>: only a dictionary has the method; the default is returned for a
  missing key, not for a key bound to \<open>null\<close>.\<close>

fun dict_get :: "json \<Rightarrow> string \<Rightarrow> json \<Rightarrow> error + json" where
  "dict_get (JObj kvs) k d = Inr (case map_of kvs k of None \<Rightarrow> d | Some v \<Rightarrow> v)"
| "dict_get _ k d = Inl AttributeError"

text \<open>\<open>for x in v\<close>: a list gives its elements, a dictionary its keys, a string its
  characters; nothing else can be iterated.\<close>

fun iterate :: "json \<Rightarrow> error + json list" where
  "iterate (JArr xs) = Inr xs"
| "iterate (JObj kvs) = Inr (map (\<lambda>kv. JStr (fst kv)) kvs)"
| "iterate (JStr s) = Inr (map (\<lambda>c. JStr [c]) s)"
| "iterate _ = Inl TypeError"

text \<open>\<open>",".join(keys)\<close> raises TypeError unless every item is a string.\<close>

fun str_items :: "json list \<Rightarrow> error + string list" where
  "str_items [] = Inr []"
| "str_items (JStr s # xs) = bindE (str_items xs) (\<lambda>ys. Inr (s # ys))"
| "str_items (_ # xs) = Inl TypeError"

fun join :: "string \<Rightarrow> string list \<Rightarrow> string" where
  "join sep [] = []"
| "join sep [x] = x"
| "join sep (x # y # ys) = x @ sep @ join sep (y # ys)"

section \<open>Configuration and the search adapter\<close>

text \<open>
  \<open>get_jira_pat\<close> (config.py): \<open>override_pat or JIRA_PAT\<close>, a ValueError when neither
  is a non-empty string. The environment's token is a parameter.
\<close>

definition py_or :: "string option \<Rightarrow> string option \<Rightarrow> string option" where
  "py_or a b = (case a of Some x \<Rightarrow> (if x \<noteq> [] then a else b) | None \<Rightarrow> b)"

definition get_jira_pat :: "string option \<Rightarrow> string option \<Rightarrow> error + string" where
  "get_jira_pat JIRA_PAT override_pat =
     (case py_or override_pat JIRA_PAT of
        None \<Rightarrow> Inl ConfigError
      | Some pat \<Rightarrow> if pat = [] then Inl ConfigError else Inr pat)"

record request =
  req_jql :: string
  req_fields :: string
  req_maxResults :: nat
  req_bearer :: string

record response =
  status_code :: nat
  json_body :: "json option"

text \<open>
  The world outside the program: the store's search endpoint (one answer per request),
  the token of the environment, and Python's formatting of a value that is not a string
  inside an f-string (used only by the per-parent fetchers of the reload handler).
\<close>

record world =
  search :: "request \<Rightarrow> response"
  env_pat :: "string option"
  repr :: "json \<Rightarrow> string"

text \<open>
  \<open>run_jira_query\<close> (jira\_client.py): one GET with \<open>maxResults = 100\<close>; a status other
  than 200 raises; otherwise the \<open>issues\<close> member of the decoded body is returned as it
  is. The first component is the list of requests sent (none when the token is missing).
\<close>

definition run_jira_query ::
  "world \<Rightarrow> string \<Rightarrow> string \<Rightarrow> string option \<Rightarrow> request list \<times> (error + json)" where
  "run_jira_query w jql field_list jira_pat =
     (case get_jira_pat (env_pat w) jira_pat of
        Inl e \<Rightarrow> ([], Inl e)
      | Inr pat \<Rightarrow>
          (let rq = \<lparr>req_jql = jql, req_fields = field_list, req_maxResults = 100, req_bearer = pat\<rparr>;
               rsp = search w rq
           in ([rq],
               if status_code rsp \<noteq> 200 then Inl (JiraApiError (status_code rsp))
               else (case json_body rsp of
                       None \<Rightarrow> Inl JSONDecodeError
                     | Some b \<Rightarrow> subscript b ''issues''))))"

section \<open>The normalizer\<close>

text \<open>
  \<open>build_issue_data\<close> (data\_fetcher.py) returns a dictionary with thirteen fixed keys;
  the callers add further keys to it afterwards (\<open>strats\<close>, \<open>epics\<close>, \<open>tasks\<close>,
  \<open>rfe_key\<close>, \<open>strat_key\<close>, \<open>epic_key\<close>, \<open>issuetype\<close>), none of which is one of the
  thirteen. The fixed keys are the fields of a record and the added keys are kept, in
  the order they are added, in \<open>extra\<close>.
\<close>

record issue_data =
  key :: json
  summary :: json
  status :: json
  priority :: json
  assignee :: json
  assignee_username :: json
  reporter :: json
  description :: json
  labels :: json
  components :: "json list"
  comments :: "json list"
  created :: json
  updated :: json
  extra :: "(string \<times> json) list"

definition comment_entry :: "json \<Rightarrow> error + json" where
  "comment_entry c =
     bindE (dict_get c ''body'' (JStr '''')) (\<lambda>b.
     bindE (bindE (dict_get c ''author'' (JObj []))
              (\<lambda>a. dict_get a ''displayName'' (JStr ''Unknown''))) (\<lambda>au.
     bindE (dict_get c ''created'' (JStr '''')) (\<lambda>cr.
     Inr (JObj [(''body'', b), (''author'', au), (''created'', cr)]))))"

definition build_issue_data :: "json \<Rightarrow> error + issue_data" where
  "build_issue_data issue =
     bindE (subscript issue ''fields'') (\<lambda>fields.
     bindE (dict_get fields ''assignee'' JNull) (\<lambda>assignee_v.
     bindE (dict_get fields ''reporter'' JNull) (\<lambda>reporter_v.
     bindE (subscript issue ''key'') (\<lambda>key_v.
     bindE (dict_get fields ''summary'' (JStr ''No summary'')) (\<lambda>summary_v.
     bindE (bindE (dict_get fields ''status'' (JObj []))
              (\<lambda>s. dict_get s ''name'' (JStr ''Unknown''))) (\<lambda>status_v.
     bindE (bindE (dict_get fields ''priority'' (JObj []))
              (\<lambda>p. dict_get p ''name'' (JStr ''Undefined''))) (\<lambda>priority_v.
     bindE (if truthy assignee_v then dict_get assignee_v ''displayName'' (JStr ''Unassigned'')
            else Inr (JStr ''Unassigned'')) (\<lambda>assignee_name.
     bindE (if truthy assignee_v then dict_get assignee_v ''name'' JNull
            else Inr JNull) (\<lambda>assignee_user.
     bindE (if truthy reporter_v then dict_get reporter_v ''displayName'' (JStr ''Unknown'')
            else Inr (JStr ''Unknown'')) (\<lambda>reporter_name.
     bindE (dict_get fields ''description'' (JStr '''')) (\<lambda>description_v.
     bindE (dict_get fields ''labels'' (JArr [])) (\<lambda>labels_v.
     bindE (bindE (bindE (dict_get fields ''components'' (JArr [])) iterate)
              (mapE (\<lambda>c. dict_get c ''name'' (JStr '''')))) (\<lambda>components_v.
     bindE (bindE (bindE (bindE (dict_get fields ''comment'' (JObj []))
                     (\<lambda>c. dict_get c ''comments'' (JArr []))) iterate)
              (mapE comment_entry)) (\<lambda>comments_v.
     bindE (dict_get fields ''created'' (JStr '''')) (\<lambda>created_v.
     bindE (dict_get fields ''updated'' (JStr '''')) (\<lambda>updated_v.
     Inr \<lparr>key = key_v, summary = summary_v, status = status_v, priority = priority_v,
          assignee = assignee_name, assignee_username = assignee_user,
          reporter = reporter_name, description = description_v, labels = labels_v,
          components = components_v, comments = comments_v,
          created = created_v, updated = updated_v, extra = []\<rparr>))))))))))))))))"


text \<open>\<open>d[k] = v\<close> on the dictionary a normalized issue is.\<close>

fun alist_set :: "(string \<times> json) list \<Rightarrow> string \<Rightarrow> json \<Rightarrow> (string \<times> json) list" where
  "alist_set [] k v = [(k, v)]"
| "alist_set ((k', v') # d) k v =
     (if k' = k then (k', v) # d else (k', v') # alist_set d k v)"

definition set_item :: "issue_data \<Rightarrow> string \<Rightarrow> json \<Rightarrow> issue_data" where
  "set_item d k v = d\<lparr>extra := alist_set (extra d) k v\<rparr>"

section \<open>The event stream\<close>

text \<open>
  \<open>send_sse_event\<close> (sse.py) appends one event, a type and its data, to the response
  and flushes. The data is a message, a normalized issue, the four totals, or (written
  by the request handler) the text of an exception. A write that fails because the
  client has gone is outside the model.
\<close>

datatype event_data =
    Message string
  | Node issue_data
  | Totals nat nat nat nat
  | Failure error

type_synonym event = "string \<times> event_data"

text \<open>
  The state of one streaming flow: what has been written to the response, the searches
  sent to the store, and the local variables of the stream function that live across
  loop iterations.
\<close>

record st =
  out :: "event list"
  reqs :: "request list"
  strat_issues :: "json list"
  strats_by_rfe :: "(string \<times> issue_data list) list"
  strat_keys_list :: "json list"
  epic_issues :: "json list"
  epics_by_strat :: "(string \<times> issue_data list) list"
  epic_keys_list :: "json list"
  task_issues :: "json list"
  tasks_by_epic :: "(string \<times> issue_data list) list"
  total_rfes :: nat
  total_strats :: nat
  total_epics :: nat
  total_tasks :: nat

definition init_st :: st where
  "init_st = \<lparr>out = [], reqs = [], strat_issues = [], strats_by_rfe = [], strat_keys_list = [],
              epic_issues = [], epics_by_strat = [], epic_keys_list = [], task_issues = [],
              tasks_by_epic = [], total_rfes = 0, total_strats = 0, total_epics = 0,
              total_tasks = 0\<rparr>"

definition send_sse_event :: "string \<Rightarrow> event_data \<Rightarrow> st \<Rightarrow> st" where
  "send_sse_event event_type data s = s\<lparr>out := out s @ [(event_type, data)]\<rparr>"

text \<open>A search inside a flow: the request is logged, the answer or the exception returned.\<close>

definition query :: "world \<Rightarrow> string \<Rightarrow> string \<Rightarrow> string option \<Rightarrow> st \<Rightarrow> (error + json) \<times> st" where
  "query w jql field_list jira_pat s =
     (case run_jira_query w jql field_list jira_pat of
        (rs, r) \<Rightarrow> (r, s\<lparr>reqs := reqs s @ rs\<rparr>))"

text \<open>
  A \<open>for\<close> loop whose body may raise. Every body below writes to the response only as
  its last step, so an iteration that raises has written nothing, and the local
  variables are dead once the exception leaves the function: the state returned with
  an exception is the one before the failing iteration.
\<close>

fun for_each :: "('a \<Rightarrow> 's \<Rightarrow> error + 's) \<Rightarrow> 'a list \<Rightarrow> 's \<Rightarrow> error option \<times> 's" where
  "for_each body [] s = (None, s)"
| "for_each body (x # xs) s =
     (case body x s of Inl e \<Rightarrow> (Some e, s) | Inr s' \<Rightarrow> for_each body xs s')"

text \<open>
  \<open>len(issues)\<close> in the "Found n ..." message raises TypeError unless the value is a list,
  a dictionary or a string; the loop after it iterates that value.
\<close>

fun sized_items :: "json \<Rightarrow> error + json list" where
  "sized_items (JArr xs) = Inr xs"
| "sized_items (JObj kvs) = Inr (map (\<lambda>kv. JStr (fst kv)) kvs)"
| "sized_items (JStr s) = Inr (map (\<lambda>c. JStr [c]) s)"
| "sized_items _ = Inl TypeError"

text \<open>
  The joined key list is built before any membership test on that list, and the join
  raises unless every key is a string. The loops therefore receive the keys as strings;
  \<open>v in keys\<close> holds for a string among them and for no other value.
\<close>

definition key_in :: "json \<Rightarrow> string list \<Rightarrow> string option" where
  "key_in v ks = (case v of JStr s \<Rightarrow> (if s \<in> set ks then Some s else None) | _ \<Rightarrow> None)"

text \<open>\<open>if k not in d: d[k] = []\<close> followed by \<open>d[k].append(v)\<close>, on a dictionary that keeps
  insertion order.\<close>

fun dict_append :: "(string \<times> 'v list) list \<Rightarrow> string \<Rightarrow> 'v \<Rightarrow> (string \<times> 'v list) list" where
  "dict_append [] k v = [(k, [v])]"
| "dict_append ((k', vs) # d) k v =
     (if k' = k then (k', vs @ [v]) # d else (k', vs) # dict_append d k v)"

text \<open>
  \<open>for p, items in d.items(): if any(i['key'] == k for i in items): found = p; break\<close>
\<close>

fun find_parent :: "(string \<times> issue_data list) list \<Rightarrow> json \<Rightarrow> string option" where
  "find_parent [] k = None"
| "find_parent ((p, items) # d) k =
     (if list_ex (\<lambda>i. key i = k) items then Some p else find_parent d k)"

subsection \<open>Strategy to Request linkage\<close>

text \<open>The scan of a Strategy's \<open>issuelinks\<close> (sse.py, lines 100 to 114).\<close>

fun find_rfe :: "string list \<Rightarrow> json list \<Rightarrow> error + string option" where
  "find_rfe rfe_keys [] = Inr None"
| "find_rfe rfe_keys (link # links) =
     bindE (dict_get link ''inwardIssue'' (JObj [])) (\<lambda>inward_issue.
     bindE (dict_get link ''outwardIssue'' (JObj [])) (\<lambda>outward_issue.
     bindE (dict_get inward_issue ''key'' JNull) (\<lambda>ik.
     (case key_in ik rfe_keys of
        Some k \<Rightarrow> Inr (Some k)
      | None \<Rightarrow>
          bindE (dict_get outward_issue ''key'' JNull) (\<lambda>ok.
          (case key_in ok rfe_keys of
             Some k \<Rightarrow> Inr (Some k)
           | None \<Rightarrow> find_rfe rfe_keys links))))))"

text \<open>The warning printed for a Strategy without a Request evaluates three lookups per link.\<close>

definition link_warning :: "json \<Rightarrow> error + unit" where
  "link_warning link =
     bindE (bindE (dict_get link ''type'' (JObj [])) (\<lambda>t. dict_get t ''name'' JNull)) (\<lambda>_.
     bindE (bindE (dict_get link ''inwardIssue'' (JObj [])) (\<lambda>i. dict_get i ''key'' JNull)) (\<lambda>_.
     bindE (bindE (dict_get link ''outwardIssue'' (JObj [])) (\<lambda>i. dict_get i ''key'' JNull)) (\<lambda>_.
     Inr ())))"

definition strat_links :: "json \<Rightarrow> error + json list" where
  "strat_links strat =
     bindE (bindE (dict_get strat ''fields'' (JObj []))
              (\<lambda>f. dict_get f ''issuelinks'' (JArr []))) iterate"

definition rfe_first_strat_body :: "string list \<Rightarrow> json \<Rightarrow> st \<Rightarrow> error + st" where
  "rfe_first_strat_body rfe_keys strat s =
     bindE (build_issue_data strat) (\<lambda>strat_data.
     bindE (strat_links strat) (\<lambda>links.
     bindE (find_rfe rfe_keys links) (\<lambda>found_rfe.
     (let s1 = s\<lparr>strat_keys_list := strat_keys_list s @ [key strat_data]\<rparr> in
      (case found_rfe of
         None \<Rightarrow> bindE (mapE link_warning links) (\<lambda>_. Inr s1)
       | Some k \<Rightarrow>
           if k \<noteq> [] then
             (let d = set_item (set_item strat_data ''rfe_key'' (JStr k)) ''epics'' (JArr [])
              in Inr (send_sse_event ''strat'' (Node d)
                        (s1\<lparr>strats_by_rfe := dict_append (strats_by_rfe s1) k d,
                            total_strats := total_strats s1 + 1\<rparr>)))
           else bindE (mapE link_warning links) (\<lambda>_. Inr s1))))))"

subsection \<open>Epic and Task linkage\<close>

definition custom_field :: "json \<Rightarrow> string \<Rightarrow> error + json" where
  "custom_field issue name =
     bindE (dict_get issue ''fields'' (JObj [])) (\<lambda>f. dict_get f name JNull)"

definition rfe_first_epic_body :: "string list \<Rightarrow> json \<Rightarrow> st \<Rightarrow> error + st" where
  "rfe_first_epic_body strat_keys epic s =
     bindE (build_issue_data epic) (\<lambda>epic_data.
     bindE (custom_field epic ''customfield_12313140'') (\<lambda>parent_link.
     (let s1 = s\<lparr>epic_keys_list := epic_keys_list s @ [key epic_data]\<rparr> in
      if truthy parent_link then
        (case key_in parent_link strat_keys of
           None \<Rightarrow> Inr s1
         | Some pl \<Rightarrow>
             (case find_parent (strats_by_rfe s1) (JStr pl) of
                None \<Rightarrow> Inr (s1\<lparr>epics_by_strat := dict_append (epics_by_strat s1) pl epic_data\<rparr>)
              | Some rfe_key \<Rightarrow>
                  if rfe_key \<noteq> [] then
                    (let d = set_item (set_item (set_item epic_data
                                 ''rfe_key'' (JStr rfe_key)) ''strat_key'' (JStr pl))
                                 ''tasks'' (JArr [])
                     in Inr (send_sse_event ''epic'' (Node d)
                               (s1\<lparr>epics_by_strat := dict_append (epics_by_strat s1) pl d,
                                   total_epics := total_epics s1 + 1\<rparr>)))
                  else Inr (s1\<lparr>epics_by_strat := dict_append (epics_by_strat s1) pl epic_data\<rparr>)))
      else Inr s1)))"

text \<open>\<open>task['fields'].get('issuetype', {}).get('name', 'Task')\<close>\<close>

definition task_issuetype :: "json \<Rightarrow> error + json" where
  "task_issuetype task =
     bindE (subscript task ''fields'') (\<lambda>f.
     bindE (dict_get f ''issuetype'' (JObj [])) (\<lambda>t. dict_get t ''name'' (JStr ''Task'')))"

definition task_epic_link :: "json \<Rightarrow> error + json" where
  "task_epic_link task =
     bindE (subscript task ''fields'') (\<lambda>f. dict_get f ''customfield_12311140'' JNull)"

definition rfe_first_task_body :: "string list \<Rightarrow> json \<Rightarrow> st \<Rightarrow> error + st" where
  "rfe_first_task_body epic_keys task s =
     bindE (build_issue_data task) (\<lambda>task_data0.
     bindE (task_issuetype task) (\<lambda>ty.
     bindE (task_epic_link task) (\<lambda>epic_link.
     (let task_data = set_item task_data0 ''issuetype'' ty in
      if truthy epic_link then
        (case key_in epic_link epic_keys of
           None \<Rightarrow> Inr s
         | Some el \<Rightarrow>
             (case find_parent (epics_by_strat s) (JStr el) of
                None \<Rightarrow> Inr (s\<lparr>tasks_by_epic := dict_append (tasks_by_epic s) el task_data\<rparr>)
              | Some strat_key \<Rightarrow>
                  (case find_parent (strats_by_rfe s) (JStr strat_key) of
                     None \<Rightarrow> Inr (s\<lparr>tasks_by_epic := dict_append (tasks_by_epic s) el task_data\<rparr>)
                   | Some rfe_key \<Rightarrow>
                       if rfe_key \<noteq> [] \<and> strat_key \<noteq> [] then
                         (let d = set_item (set_item (set_item task_data
                                      ''rfe_key'' (JStr rfe_key)) ''strat_key'' (JStr strat_key))
                                      ''epic_key'' (JStr el)
                          in Inr (send_sse_event ''task'' (Node d)
                                    (s\<lparr>tasks_by_epic := dict_append (tasks_by_epic s) el d,
                                       total_tasks := total_tasks s + 1\<rparr>)))
                       else Inr (s\<lparr>tasks_by_epic := dict_append (tasks_by_epic s) el task_data\<rparr>))))
      else Inr s))))"

definition strat_first_strat_body :: "json \<Rightarrow> st \<Rightarrow> error + st" where
  "strat_first_strat_body strat s =
     bindE (build_issue_data strat) (\<lambda>strat_data.
     (let d = set_item strat_data ''epics'' (JArr [])
      in Inr (send_sse_event ''strat'' (Node d)
                (s\<lparr>strat_keys_list := strat_keys_list s @ [key strat_data],
                   total_strats := total_strats s + 1\<rparr>))))"

definition strat_first_epic_body :: "string list \<Rightarrow> json \<Rightarrow> st \<Rightarrow> error + st" where
  "strat_first_epic_body strat_keys epic s =
     bindE (build_issue_data epic) (\<lambda>epic_data.
     bindE (custom_field epic ''customfield_12313140'') (\<lambda>parent_link.
     (let s1 = s\<lparr>epic_keys_list := epic_keys_list s @ [key epic_data]\<rparr> in
      if truthy parent_link then
        (case key_in parent_link strat_keys of
           None \<Rightarrow> Inr s1
         | Some pl \<Rightarrow>
             (let d = set_item (set_item epic_data ''strat_key'' (JStr pl)) ''tasks'' (JArr [])
              in Inr (send_sse_event ''epic'' (Node d)
                        (s1\<lparr>epics_by_strat := dict_append (epics_by_strat s1) pl d,
                            total_epics := total_epics s1 + 1\<rparr>))))
      else Inr s1)))"

definition strat_first_task_body :: "string list \<Rightarrow> json \<Rightarrow> st \<Rightarrow> error + st" where
  "strat_first_task_body epic_keys task s =
     bindE (build_issue_data task) (\<lambda>task_data0.
     bindE (task_issuetype task) (\<lambda>ty.
     bindE (task_epic_link task) (\<lambda>epic_link.
     (let task_data = set_item task_data0 ''issuetype'' ty in
      if truthy epic_link then
        (case key_in epic_link epic_keys of
           None \<Rightarrow> Inr s
         | Some el \<Rightarrow>
             (case find_parent (epics_by_strat s) (JStr el) of
                None \<Rightarrow> Inr (s\<lparr>tasks_by_epic := dict_append (tasks_by_epic s) el task_data\<rparr>)
              | Some strat_key \<Rightarrow>
                  if strat_key \<noteq> [] then
                    (let d = set_item (set_item task_data
                                 ''strat_key'' (JStr strat_key)) ''epic_key'' (JStr el)
                     in Inr (send_sse_event ''task'' (Node d)
                               (s\<lparr>tasks_by_epic := dict_append (tasks_by_epic s) el d,
                                  total_tasks := total_tasks s + 1\<rparr>)))
                  else Inr (s\<lparr>tasks_by_epic := dict_append (tasks_by_epic s) el task_data\<rparr>)))
      else Inr s))))"


section \<open>Filter expressions\<close>

definition base_field_list :: string where
  "base_field_list =
     ''summary,status,priority,assignee,reporter,description,labels,comment,created,updated,components''"

definition task_field_list :: string where
  "task_field_list =
     ''summary,status,priority,assignee,reporter,description,labels,comment,issuetype,created,updated,components,customfield_12311140''"

definition rfes_jql :: "string \<Rightarrow> string" where
  \<open>rfes_jql component =
     ''project = RHAIRFE AND issuetype = "Feature Request" AND component = "'' @ component @
     ''" AND status NOT IN (Closed, Resolved) ORDER BY priority DESC, created DESC''\<close>

definition strats_jql :: "string list \<Rightarrow> string" where
  \<open>strats_jql rfe_keys =
     ''project = RHAISTRAT AND (issueFunction in linkedIssuesOf("key in ('' @ join '','' rfe_keys @
     '')", "is cloned by") OR issueFunction in linkedIssuesOf("key in ('' @ join '','' rfe_keys @
     '')", "clones")) AND status NOT IN (Closed, Resolved)''\<close>

definition component_strats_jql :: "string \<Rightarrow> string" where
  \<open>component_strats_jql component =
     ''project = RHAISTRAT AND component = "'' @ component @
     ''" AND status NOT IN (Closed, Resolved) ORDER BY priority DESC, created DESC''\<close>

definition epics_jql :: "string list \<Rightarrow> string" where
  \<open>epics_jql strat_keys =
     ''project = RHOAIENG AND issuetype = Epic AND "Parent Link" in ('' @ join '','' strat_keys @
     '') AND status NOT IN (Closed, Resolved)''\<close>

definition tasks_jql :: "string list \<Rightarrow> string" where
  \<open>tasks_jql epic_keys =
     ''"Epic Link" in ('' @ join '','' epic_keys @
     '') AND issuetype NOT IN (Epic, Feature, "Feature Request") AND status NOT IN (Closed, Resolved)''\<close>

section \<open>The streaming orchestrator\<close>

text \<open>\<open>fetch_rfes\<close> (data\_fetcher.py): one search, every record normalized.\<close>

definition fetch_rfes :: "world \<Rightarrow> string \<Rightarrow> string option \<Rightarrow> st \<Rightarrow> (error + issue_data list) \<times> st" where
  "fetch_rfes w component jira_pat s =
     (case query w (rfes_jql component) base_field_list jira_pat s of
        (r, s') \<Rightarrow> (bindE (bindE r iterate) (mapE build_issue_data), s'))"

text \<open>
  One level below the top (sse.py, steps 2 to 4 of the request-first function, 2 and 3
  of the strategy-first one): the progress event, the filter over all keys of the level
  above, one search, the "Found n" message, and the loop over the records.
\<close>

definition fetch_level ::
  "world \<Rightarrow> string option \<Rightarrow> string \<Rightarrow> (string list \<Rightarrow> string) \<Rightarrow> string \<Rightarrow>
   (json list \<Rightarrow> st \<Rightarrow> st) \<Rightarrow> (string list \<Rightarrow> json \<Rightarrow> st \<Rightarrow> error + st) \<Rightarrow>
   json list \<Rightarrow> st \<Rightarrow> error option \<times> st" where
  "fetch_level w jira_pat message jql field_list assign loop_body keys s =
     (let s1 = send_sse_event ''progress'' (Message message) s in
      case str_items keys of
        Inl e \<Rightarrow> (Some e, s1)
      | Inr ks \<Rightarrow>
          (case query w (jql ks) field_list jira_pat s1 of
             (Inl e, s2) \<Rightarrow> (Some e, s2)
           | (Inr issues, s2) \<Rightarrow>
               (case sized_items issues of
                  Inl e \<Rightarrow> (Some e, s2)
                | Inr items \<Rightarrow> for_each (loop_body ks) items (assign items s2))))"

text \<open>The summary printed after the completion event.\<close>

record summary =
  fetched_strats :: nat
  orphaned_strats :: "int option"
  fetched_epics :: nat
  orphaned_epics :: int
  fetched_tasks :: nat
  orphaned_tasks :: int

datatype outcome = Raised error | Returned "summary option"

definition len_if_keys :: "json list \<Rightarrow> json list \<Rightarrow> nat" where
  "len_if_keys issues keys = (if keys \<noteq> [] then length issues else 0)"

definition rfe_first_summary :: "st \<Rightarrow> summary" where
  "rfe_first_summary s =
     \<lparr>fetched_strats = length (strat_issues s),
      orphaned_strats = Some (int (length (strat_issues s)) - int (total_strats s)),
      fetched_epics = len_if_keys (epic_issues s) (epic_keys_list s),
      orphaned_epics = int (len_if_keys (epic_issues s) (epic_keys_list s)) - int (total_epics s),
      fetched_tasks = len_if_keys (task_issues s) (epic_keys_list s),
      orphaned_tasks = int (len_if_keys (task_issues s) (epic_keys_list s)) - int (total_tasks s)\<rparr>"

definition strat_first_summary :: "st \<Rightarrow> summary" where
  "strat_first_summary s =
     \<lparr>fetched_strats = length (strat_issues s),
      orphaned_strats = None,
      fetched_epics = len_if_keys (epic_issues s) (epic_keys_list s),
      orphaned_epics = int (len_if_keys (epic_issues s) (epic_keys_list s)) - int (total_epics s),
      fetched_tasks = len_if_keys (task_issues s) (epic_keys_list s),
      orphaned_tasks = int (len_if_keys (task_issues s) (epic_keys_list s)) - int (total_tasks s)\<rparr>"

definition send_rfe :: "issue_data \<Rightarrow> st \<Rightarrow> st" where
  "send_rfe rfe_data s =
     (send_sse_event ''rfe'' (Node (set_item rfe_data ''strats'' (JArr []))) s)
       \<lparr>total_rfes := total_rfes s + 1\<rparr>"

definition epic_field_list :: "string \<Rightarrow> string" where
  "epic_field_list field_list = field_list @ '',customfield_12313140''"

text \<open>Steps 3 and 4 of the request-first function and the completion event.\<close>

definition rfe_first_tasks :: "world \<Rightarrow> string option \<Rightarrow> st \<Rightarrow> outcome \<times> st" where
  "rfe_first_tasks w jira_pat s =
     (case (if epic_keys_list s \<noteq> [] then
              fetch_level w jira_pat ''Loading Tasks...'' tasks_jql task_field_list
                (\<lambda>i s. s\<lparr>task_issues := i\<rparr>) rfe_first_task_body (epic_keys_list s) s
            else (None, s)) of
        (Some e, s') \<Rightarrow> (Raised e, s')
      | (None, s') \<Rightarrow>
          (Returned (Some (rfe_first_summary s')),
           send_sse_event ''complete''
             (Totals (total_rfes s') (total_strats s') (total_epics s') (total_tasks s')) s'))"

definition rfe_first_epics :: "world \<Rightarrow> string option \<Rightarrow> st \<Rightarrow> outcome \<times> st" where
  "rfe_first_epics w jira_pat s =
     (case (if strat_keys_list s \<noteq> [] then
              fetch_level w jira_pat ''Loading Epics...'' epics_jql
                (epic_field_list (base_field_list @ '',issuelinks''))
                (\<lambda>i s. s\<lparr>epic_issues := i\<rparr>) rfe_first_epic_body (strat_keys_list s) s
            else (None, s)) of
        (Some e, s') \<Rightarrow> (Raised e, s')
      | (None, s') \<Rightarrow> rfe_first_tasks w jira_pat s')"

definition stream_hierarchy_rfe_first :: "world \<Rightarrow> string option \<Rightarrow> string \<Rightarrow> st \<Rightarrow> outcome \<times> st" where
  "stream_hierarchy_rfe_first w jira_pat component s0 =
     (let s1 = send_sse_event ''progress'' (Message ''Loading RFEs...'') s0 in
      case fetch_rfes w component jira_pat s1 of
        (Inl e, s2) \<Rightarrow> (Raised e, s2)
      | (Inr rfes, s2) \<Rightarrow>
          if rfes = [] then
            (Returned None, send_sse_event ''complete'' (Totals 0 0 0 0) s2)
          else
            (case fetch_level w jira_pat ''Loading STRATs...'' strats_jql
                    (base_field_list @ '',issuelinks'')
                    (\<lambda>i s. s\<lparr>strat_issues := i\<rparr>) rfe_first_strat_body
                    (map key rfes) (fold send_rfe rfes s2) of
               (Some e, s3) \<Rightarrow> (Raised e, s3)
             | (None, s3) \<Rightarrow> rfe_first_epics w jira_pat s3))"

text \<open>The strategy-first function.\<close>

definition strat_first_tasks :: "world \<Rightarrow> string option \<Rightarrow> st \<Rightarrow> outcome \<times> st" where
  "strat_first_tasks w jira_pat s =
     (case (if epic_keys_list s \<noteq> [] then
              fetch_level w jira_pat ''Loading Tasks...'' tasks_jql task_field_list
                (\<lambda>i s. s\<lparr>task_issues := i\<rparr>) strat_first_task_body (epic_keys_list s) s
            else (None, s)) of
        (Some e, s') \<Rightarrow> (Raised e, s')
      | (None, s') \<Rightarrow>
          (Returned (Some (strat_first_summary s')),
           send_sse_event ''complete''
             (Totals 0 (total_strats s') (total_epics s') (total_tasks s')) s'))"

definition strat_first_epics :: "world \<Rightarrow> string option \<Rightarrow> st \<Rightarrow> outcome \<times> st" where
  "strat_first_epics w jira_pat s =
     (case (if strat_keys_list s \<noteq> [] then
              fetch_level w jira_pat ''Loading Epics...'' epics_jql
                (epic_field_list base_field_list)
                (\<lambda>i s. s\<lparr>epic_issues := i\<rparr>) strat_first_epic_body (strat_keys_list s) s
            else (None, s)) of
        (Some e, s') \<Rightarrow> (Raised e, s')
      | (None, s') \<Rightarrow> strat_first_tasks w jira_pat s')"

definition stream_hierarchy_strat_first :: "world \<Rightarrow> string option \<Rightarrow> string \<Rightarrow> st \<Rightarrow> outcome \<times> st" where
  "stream_hierarchy_strat_first w jira_pat component s0 =
     (let s1 = send_sse_event ''progress'' (Message ''Loading STRATs...'') s0 in
      case query w (component_strats_jql component) base_field_list jira_pat s1 of
        (Inl e, s2) \<Rightarrow> (Raised e, s2)
      | (Inr issues, s2) \<Rightarrow>
          (case sized_items issues of
             Inl e \<Rightarrow> (Raised e, s2)
           | Inr items \<Rightarrow>
               if items = [] then
                 (Returned None, send_sse_event ''complete'' (Totals 0 0 0 0) s2)
               else
                 (case for_each strat_first_strat_body items (s2\<lparr>strat_issues := items\<rparr>) of
                    (Some e, s3) \<Rightarrow> (Raised e, s3)
                  | (None, s3) \<Rightarrow> strat_first_epics w jira_pat s3)))"

definition stream_hierarchy :: "world \<Rightarrow> string option \<Rightarrow> string \<Rightarrow> string \<Rightarrow> st \<Rightarrow> outcome \<times> st" where
  "stream_hierarchy w jira_pat component top_level s =
     (if top_level = ''strat'' then stream_hierarchy_strat_first w jira_pat component s
      else stream_hierarchy_rfe_first w jira_pat component s)"

text \<open>
  \<open>serve_hierarchy_stream\<close> (server.py): without a token, a JSON reply with status 400;
  otherwise the event stream, closed by one \<open>error\<close> event when the stream function
  raised. The result is the reply and the searches sent.
\<close>

datatype reply_body = ErrorText string | ErrorOf error | Success json

datatype reply = JsonReply nat reply_body | EventStream "event list"

definition serve_hierarchy_stream ::
  "world \<Rightarrow> string option \<Rightarrow> string \<Rightarrow> string \<Rightarrow> reply \<times> request list" where
  "serve_hierarchy_stream w pat_param component top_level =
     (case py_or pat_param (env_pat w) of
        None \<Rightarrow> (JsonReply 400 (ErrorText ''Personal Access Token not provided''), [])
      | Some pat \<Rightarrow>
          if pat = [] then (JsonReply 400 (ErrorText ''Personal Access Token not provided''), [])
          else
            (case stream_hierarchy w (Some pat) component top_level init_st of
               (Raised e, s) \<Rightarrow> (EventStream (out s @ [(''error'', Failure e)]), reqs s)
             | (Returned _, s) \<Rightarrow> (EventStream (out s), reqs s)))"


section \<open>Point operations: labels\<close>

text \<open>The store's issue endpoint: GET by key and field list, PUT of a field map (its status).\<close>

record issue_api =
  get_issue :: "string \<Rightarrow> string \<Rightarrow> response"
  put_issue :: "string \<Rightarrow> json \<Rightarrow> nat"

definition get_jira_issue ::
  "issue_api \<Rightarrow> string option \<Rightarrow> string \<Rightarrow> string \<Rightarrow> string option \<Rightarrow> error + json" where
  "get_jira_issue api JIRA_PAT issue_key field_list jira_pat =
     bindE (get_jira_pat JIRA_PAT jira_pat) (\<lambda>pat.
     (let rsp = get_issue api issue_key field_list in
      if status_code rsp \<noteq> 200 then Inl (FetchIssueFailed (status_code rsp))
      else (case json_body rsp of None \<Rightarrow> Inl JSONDecodeError | Some b \<Rightarrow> Inr b)))"

text \<open>\<open>p in s\<close> on two strings is the substring test.\<close>

fun starts_with :: "string \<Rightarrow> string \<Rightarrow> bool" where
  "starts_with s [] = True"
| "starts_with [] (c # p) = False"
| "starts_with (d # s) (c # p) = (d = c \<and> starts_with s p)"

fun contains :: "string \<Rightarrow> string \<Rightarrow> bool" where
  "contains [] p = (p = [])"
| "contains (c # s) p = (starts_with (c # s) p \<or> contains s p)"

text \<open>
  \<open>if label not in current_labels: current_labels.append(label)\<close>. Membership is defined
  on a list, a dictionary (its keys) and a string; only a list can be appended to.
\<close>

fun add_label :: "json \<Rightarrow> string \<Rightarrow> error + json" where
  "add_label (JArr xs) l = Inr (if JStr l \<in> set xs then JArr xs else JArr (xs @ [JStr l]))"
| "add_label (JObj kvs) l = (if map_of kvs l \<noteq> None then Inr (JObj kvs) else Inl AttributeError)"
| "add_label (JStr s) l = (if contains s l then Inr (JStr s) else Inl AttributeError)"
| "add_label _ l = Inl TypeError"

text \<open>\<open>if label in current_labels: current_labels.remove(label)\<close>; \<open>remove\<close> deletes the
  first equal item.\<close>

fun remove_label :: "json \<Rightarrow> string \<Rightarrow> error + json" where
  "remove_label (JArr xs) l = Inr (if JStr l \<in> set xs then JArr (remove1 (JStr l) xs) else JArr xs)"
| "remove_label (JObj kvs) l = (if map_of kvs l \<noteq> None then Inl AttributeError else Inr (JObj kvs))"
| "remove_label (JStr s) l = (if contains s l then Inl AttributeError else Inr (JStr s))"
| "remove_label _ l = Inl TypeError"

definition update_jira_labels ::
  "issue_api \<Rightarrow> string option \<Rightarrow> string \<Rightarrow> string \<Rightarrow> string \<Rightarrow> string option \<Rightarrow> error + json" where
  "update_jira_labels api JIRA_PAT issue_key action label jira_pat =
     bindE (get_jira_pat JIRA_PAT jira_pat) (\<lambda>pat.
     bindE (get_jira_issue api JIRA_PAT issue_key ''labels'' jira_pat) (\<lambda>issue_data.
     bindE (bindE (subscript issue_data ''fields'') (\<lambda>f. dict_get f ''labels'' (JArr [])))
       (\<lambda>current_labels.
     bindE (if action = ''add'' then add_label current_labels label
            else if action = ''remove'' then remove_label current_labels label
            else Inr current_labels) (\<lambda>new_labels.
     (let st = put_issue api issue_key (JObj [(''fields'', JObj [(''labels'', new_labels)])]) in
      if st \<noteq> 204 then Inl (UpdateLabelsFailed st) else Inr new_labels)))))"


section \<open>The single-item reloader\<close>

text \<open>A normalized issue as the JSON object sent to the client.\<close>

definition to_json :: "issue_data \<Rightarrow> json" where
  "to_json d =
     JObj ([(''key'', key d), (''summary'', summary d), (''status'', status d),
            (''priority'', priority d), (''assignee'', assignee d),
            (''assignee_username'', assignee_username d), (''reporter'', reporter d),
            (''description'', description d), (''labels'', labels d),
            (''components'', JArr (components d)), (''comments'', JArr (comments d)),
            (''created'', created d), (''updated'', updated d)] @ extra d)"

text \<open>A key interpolated into an f-string: a string as it is, anything else as Python
  prints it.\<close>

definition fmt :: "world \<Rightarrow> json \<Rightarrow> string" where
  "fmt w v = (case v of JStr s \<Rightarrow> s | _ \<Rightarrow> repr w v)"

definition strats_for_rfe_jql :: "string \<Rightarrow> string" where
  \<open>strats_for_rfe_jql rfe_key =
     ''project = RHAISTRAT AND (issueFunction in linkedIssuesOf("key = '' @ rfe_key @
     ''", "is cloned by") OR issueFunction in linkedIssuesOf("key = '' @ rfe_key @
     ''", "clones")) AND status NOT IN (Closed, Resolved)''\<close>

definition epics_for_strat_jql :: "string \<Rightarrow> string" where
  \<open>epics_for_strat_jql strat_key =
     ''project = RHOAIENG AND issuetype = Epic AND "Parent Link" = '' @ strat_key @
     '' AND status NOT IN (Closed, Resolved)''\<close>

definition tasks_for_epic_jql :: "string \<Rightarrow> string" where
  \<open>tasks_for_epic_jql epic_key =
     ''"Epic Link" = '' @ epic_key @
     '' AND issuetype NOT IN (Epic, Feature, "Feature Request") AND status NOT IN (Closed, Resolved)''\<close>

definition key_jql :: "string \<Rightarrow> string" where
  "key_jql issue_key = ''key = '' @ issue_key"

definition fetch_strats_for_rfe ::
  "world \<Rightarrow> json \<Rightarrow> string option \<Rightarrow> st \<Rightarrow> (error + issue_data list) \<times> st" where
  "fetch_strats_for_rfe w rfe_key jira_pat s =
     (case query w (strats_for_rfe_jql (fmt w rfe_key)) base_field_list jira_pat s of
        (r, s') \<Rightarrow> (bindE (bindE r iterate) (mapE build_issue_data), s'))"

definition fetch_epics_for_strat ::
  "world \<Rightarrow> json \<Rightarrow> string option \<Rightarrow> st \<Rightarrow> (error + issue_data list) \<times> st" where
  "fetch_epics_for_strat w strat_key jira_pat s =
     (case query w (epics_for_strat_jql (fmt w strat_key))
             (base_field_list @ '',customfield_12313140'') jira_pat s of
        (r, s') \<Rightarrow> (bindE (bindE r iterate) (mapE build_issue_data), s'))"

definition build_task :: "json \<Rightarrow> error + issue_data" where
  "build_task task =
     bindE (build_issue_data task) (\<lambda>task_data.
     bindE (task_issuetype task) (\<lambda>ty. Inr (set_item task_data ''issuetype'' ty)))"

text \<open>
  \<open>fetch_tasks_for_epic\<close> (data\_fetcher.py) wraps the search and the loop in
  \<open>try ... except Exception\<close>, prints the exception and returns the empty list.
\<close>

definition fetch_tasks_for_epic ::
  "world \<Rightarrow> json \<Rightarrow> string option \<Rightarrow> st \<Rightarrow> issue_data list \<times> st" where
  "fetch_tasks_for_epic w epic_key jira_pat s =
     (case query w (tasks_for_epic_jql (fmt w epic_key)) task_field_list jira_pat s of
        (r, s') \<Rightarrow>
          (case bindE (bindE r iterate) (mapE build_task) of
             Inl e \<Rightarrow> ([], s')
           | Inr tasks \<Rightarrow> (tasks, s')))"

text \<open>A loop whose body searches: the searches of a failing iteration stay in the log.\<close>

fun for_each_q ::
  "('a \<Rightarrow> st \<Rightarrow> (error + 'b) \<times> st) \<Rightarrow> 'a list \<Rightarrow> st \<Rightarrow> (error + 'b list) \<times> st" where
  "for_each_q f [] s = (Inr [], s)"
| "for_each_q f (x # xs) s =
     (case f x s of
        (Inl e, s') \<Rightarrow> (Inl e, s')
      | (Inr y, s') \<Rightarrow>
          (case for_each_q f xs s' of
             (Inl e, s'') \<Rightarrow> (Inl e, s'')
           | (Inr ys, s'') \<Rightarrow> (Inr (y # ys), s'')))"

text \<open>\<open>issues[0]\<close> on a search result that passed \<open>if not issues\<close>.\<close>

fun first_item :: "json \<Rightarrow> error + json" where
  "first_item (JArr (x # xs)) = Inr x"
| "first_item (JArr []) = Inl IndexError"
| "first_item (JStr (c # cs)) = Inr (JStr [c])"
| "first_item (JStr []) = Inl IndexError"
| "first_item (JObj kvs) = Inl (KeyError ''0'')"
| "first_item _ = Inl TypeError"

text \<open>
  The epics of one Strategy with their tasks; \<open>chain\<close> holds the ancestor keys every
  epic and task below receives (\<open>rfe_key\<close> and \<open>strat_key\<close>, or \<open>strat_key\<close> alone).
\<close>

definition set_items :: "issue_data \<Rightarrow> (string \<times> json) list \<Rightarrow> issue_data" where
  "set_items d kvs = fold (\<lambda>kv d. set_item d (fst kv) (snd kv)) kvs d"

definition reload_epic ::
  "world \<Rightarrow> string option \<Rightarrow> (string \<times> json) list \<Rightarrow> issue_data \<Rightarrow> st \<Rightarrow> (error + issue_data) \<times> st" where
  "reload_epic w pat chain epic_data s =
     (let e1 = set_items epic_data chain in
      case fetch_tasks_for_epic w (key epic_data) pat s of
        (tasks, s') \<Rightarrow>
          (Inr (set_item e1 ''tasks''
                  (JArr (map (\<lambda>t. to_json (set_items t (chain @ [(''epic_key'', key epic_data)])))
                           tasks))), s'))"

definition reload_epics ::
  "world \<Rightarrow> string option \<Rightarrow> (string \<times> json) list \<Rightarrow> json \<Rightarrow> issue_data \<Rightarrow> st \<Rightarrow> (error + issue_data) \<times> st" where
  "reload_epics w pat chain strat_key strat_data s =
     (case fetch_epics_for_strat w strat_key pat s of
        (Inl e, s1) \<Rightarrow> (Inl e, s1)
      | (Inr epics, s1) \<Rightarrow>
          (case for_each_q (reload_epic w pat (chain @ [(''strat_key'', strat_key)])) epics s1 of
             (Inl e, s2) \<Rightarrow> (Inl e, s2)
           | (Inr es, s2) \<Rightarrow> (Inr (set_item strat_data ''epics'' (JArr (map to_json es))), s2)))"

definition reload_strat ::
  "world \<Rightarrow> string option \<Rightarrow> string \<Rightarrow> issue_data \<Rightarrow> st \<Rightarrow> (error + issue_data) \<times> st" where
  "reload_strat w pat issue_key strat_data s =
     reload_epics w pat [(''rfe_key'', JStr issue_key)] (key strat_data)
       (set_item (set_item strat_data ''rfe_key'' (JStr issue_key)) ''epics'' (JArr [])) s"

definition reload_rfe ::
  "world \<Rightarrow> string option \<Rightarrow> string \<Rightarrow> string \<Rightarrow> st \<Rightarrow> (error + reply) \<times> st" where
  "reload_rfe w pat component issue_key s =
     (case fetch_rfes w component pat s of
        (Inl e, s1) \<Rightarrow> (Inl e, s1)
      | (Inr rfes, s1) \<Rightarrow>
          (case find (\<lambda>r. key r = JStr issue_key) rfes of
             None \<Rightarrow> (Inr (JsonReply 404 (ErrorText ''RFE not found'')), s1)
           | Some rfe \<Rightarrow>
               (case fetch_strats_for_rfe w (JStr issue_key) pat s1 of
                  (Inl e, s2) \<Rightarrow> (Inl e, s2)
                | (Inr strats, s2) \<Rightarrow>
                    (case for_each_q (reload_strat w pat issue_key) strats s2 of
                       (Inl e, s3) \<Rightarrow> (Inl e, s3)
                     | (Inr ss, s3) \<Rightarrow>
                         (Inr (JsonReply 200 (Success (to_json
                                 (set_item rfe ''strats'' (JArr (map to_json ss)))))), s3)))))"

definition reload_strat_item ::
  "world \<Rightarrow> string option \<Rightarrow> string \<Rightarrow> st \<Rightarrow> (error + reply) \<times> st" where
  "reload_strat_item w pat issue_key s =
     (case query w (key_jql issue_key) base_field_list pat s of
        (Inl e, s1) \<Rightarrow> (Inl e, s1)
      | (Inr found, s1) \<Rightarrow>
          if \<not> truthy found then (Inr (JsonReply 404 (ErrorText ''STRAT not found'')), s1)
          else
            (case bindE (first_item found) build_issue_data of
               Inl e \<Rightarrow> (Inl e, s1)
             | Inr strat_data \<Rightarrow>
                 (case reload_epics w pat [] (JStr issue_key)
                         (set_item strat_data ''epics'' (JArr [])) s1 of
                    (Inl e, s2) \<Rightarrow> (Inl e, s2)
                  | (Inr d, s2) \<Rightarrow> (Inr (JsonReply 200 (Success (to_json d))), s2))))"

definition reload_epic_item ::
  "world \<Rightarrow> string option \<Rightarrow> string \<Rightarrow> st \<Rightarrow> (error + reply) \<times> st" where
  "reload_epic_item w pat issue_key s =
     (case query w (key_jql issue_key) base_field_list pat s of
        (Inl e, s1) \<Rightarrow> (Inl e, s1)
      | (Inr found, s1) \<Rightarrow>
          if \<not> truthy found then (Inr (JsonReply 404 (ErrorText ''Epic not found'')), s1)
          else
            (case bindE (first_item found) build_issue_data of
               Inl e \<Rightarrow> (Inl e, s1)
             | Inr epic_data \<Rightarrow>
                 (case fetch_tasks_for_epic w (JStr issue_key) pat s1 of
                    (tasks, s2) \<Rightarrow>
                      (Inr (JsonReply 200 (Success (to_json (set_item epic_data ''tasks''
                              (JArr (map (\<lambda>t. to_json (set_item t ''epic_key'' (JStr issue_key)))
                                       tasks)))))), s2))))"

definition reload_task_item ::
  "world \<Rightarrow> string option \<Rightarrow> string \<Rightarrow> st \<Rightarrow> (error + reply) \<times> st" where
  "reload_task_item w pat issue_key s =
     (case query w (key_jql issue_key)
             ''summary,status,priority,assignee,reporter,description,labels,comment,issuetype,created,updated,components''
             pat s of
        (Inl e, s1) \<Rightarrow> (Inl e, s1)
      | (Inr found, s1) \<Rightarrow>
          if \<not> truthy found then (Inr (JsonReply 404 (ErrorText ''Task not found'')), s1)
          else
            (case bindE (first_item found) build_task of
               Inl e \<Rightarrow> (Inl e, s1)
             | Inr task_data \<Rightarrow> (Inr (JsonReply 200 (Success (to_json task_data))), s1)))"

text \<open>
  \<open>reload_item\<close> (server.py): the whole dispatch runs inside \<open>try ... except Exception\<close>,
  which answers with status 500 and the text of the exception.
\<close>

definition reload_item ::
  "world \<Rightarrow> string option \<Rightarrow> string option \<Rightarrow> string option \<Rightarrow> string \<Rightarrow> reply \<times> request list" where
  "reload_item w issue_key_param item_type_param pat component =
     (case (issue_key_param, item_type_param) of
        (Some issue_key, Some item_type) \<Rightarrow>
          if issue_key = [] \<or> item_type = [] then
            (JsonReply 400 (ErrorText ''Missing required parameters''), [])
          else
            (case (if item_type = ''rfe'' then reload_rfe w pat component issue_key init_st
                   else if item_type = ''strat'' then reload_strat_item w pat issue_key init_st
                   else if item_type = ''epic'' then reload_epic_item w pat issue_key init_st
                   else if item_type = ''task'' then reload_task_item w pat issue_key init_st
                   else (Inr (JsonReply 400 (ErrorText ''Invalid item type'')), init_st)) of
               (Inl e, s) \<Rightarrow> (JsonReply 500 (ErrorOf e), reqs s)
             | (Inr r, s) \<Rightarrow> (r, reqs s))
      | _ \<Rightarrow> (JsonReply 400 (ErrorText ''Missing required parameters''), []))"

text \<open>
  Worlds and records used to evaluate the definitions on concrete inputs: a store that
  answers each search from a table of filter expressions, and a minimal raw record.
\<close>

definition ok :: "json list \<Rightarrow> response" where
  "ok issues = \<lparr>status_code = 200, json_body = Some (JObj [(''issues'', JArr issues)])\<rparr>"

definition failing :: "nat \<Rightarrow> response" where
  "failing n = \<lparr>status_code = n, json_body = None\<rparr>"

definition table_store :: "(string \<times> response) list \<Rightarrow> request \<Rightarrow> response" where
  "table_store tab rq = (case map_of tab (req_jql rq) of Some r \<Rightarrow> r | None \<Rightarrow> ok [])"

definition table_world :: "(string \<times> response) list \<Rightarrow> world" where
  "table_world tab = \<lparr>search = table_store tab, env_pat = None, repr = (\<lambda>v. ''?'')\<rparr>"

definition raw :: "string \<Rightarrow> (string \<times> json) list \<Rightarrow> json" where
  "raw k flds = JObj [(''key'', JStr k), (''fields'', JObj flds)]"

text \<open>A store that holds a list of records and answers every search with its first
  \<open>maxResults\<close> records.\<close>

definition paged_world :: "json list \<Rightarrow> world" where
  "paged_world issues =
     \<lparr>search = (\<lambda>rq. ok (take (req_maxResults rq) issues)), env_pat = None,
      repr = (\<lambda>v. ''?'')\<rparr>"

section \<open>Specification-side notions\<close>

text \<open>
  The number of records in a search result, and the store's side of the page contract: a
  response holds at most as many records as the request's \<open>maxResults\<close> asks for.
\<close>

definition num_records :: "json \<Rightarrow> nat" where
  "num_records v = (case sized_items v of Inr xs \<Rightarrow> length xs | Inl _ \<Rightarrow> 0)"

definition respects_page_size :: "response \<Rightarrow> nat \<Rightarrow> bool" where
  "respects_page_size rsp n =
     (case json_body rsp of
        None \<Rightarrow> True
      | Some b \<Rightarrow> (case subscript b ''issues'' of Inr v \<Rightarrow> num_records v \<le> n | Inl _ \<Rightarrow> True))"

text \<open>An issue endpoint that holds a label list and accepts every update.\<close>

definition label_api :: "json list \<Rightarrow> issue_api" where
  "label_api L =
     \<lparr>get_issue = (\<lambda>k f. \<lparr>status_code = 200,
                         json_body = Some (JObj [(''key'', JStr k),
                                                 (''fields'', JObj [(''labels'', JArr L)])])\<rparr>),
      put_issue = (\<lambda>k p. 204)\<rparr>"

text \<open>
  The Strategy linkage rule in the specification's words: the key a link's inward or
  outward entry refers to (none when the entry is absent), the Request a link matches
  (its inward entry first, then its outward one), and a link of the expected shape (an
  object whose two entries, when present, are objects).
\<close>

definition entry_key :: "json \<Rightarrow> string \<Rightarrow> json" where
  "entry_key link side =
     (case link of
        JObj kvs \<Rightarrow>
          (case map_of kvs side of
             Some (JObj e) \<Rightarrow> (case map_of e ''key'' of Some v \<Rightarrow> v | None \<Rightarrow> JNull)
           | _ \<Rightarrow> JNull)
      | _ \<Rightarrow> JNull)"

definition link_match :: "string list \<Rightarrow> json \<Rightarrow> string option" where
  "link_match rfe_keys link =
     (case key_in (entry_key link ''inwardIssue'') rfe_keys of
        Some k \<Rightarrow> Some k
      | None \<Rightarrow> key_in (entry_key link ''outwardIssue'') rfe_keys)"

fun entry_ok :: "json option \<Rightarrow> bool" where
  "entry_ok None = True"
| "entry_ok (Some (JObj e)) = True"
| "entry_ok (Some _) = False"

definition wf_link :: "json \<Rightarrow> bool" where
  "wf_link link =
     (case link of
        JObj kvs \<Rightarrow> entry_ok (map_of kvs ''inwardIssue'') \<and> entry_ok (map_of kvs ''outwardIssue'')
      | _ \<Rightarrow> False)"

text \<open>Three links of one Strategy: the second and the third each name a known Request.\<close>

definition link_a :: json where
  "link_a = JObj [(''type'', JObj [(''name'', JStr ''Related'')]),
                  (''outwardIssue'', JObj [(''key'', JStr ''OTHER-9'')])]"

definition link_b :: json where
  "link_b = JObj [(''type'', JObj [(''name'', JStr ''Cloners'')]),
                  (''outwardIssue'', JObj [(''key'', JStr ''RHAIRFE-2'')])]"

definition link_c :: json where
  "link_c = JObj [(''type'', JObj [(''name'', JStr ''Cloners'')]),
                  (''inwardIssue'', JObj [(''key'', JStr ''RHAIRFE-1'')])]"

text \<open>An optional nested object is absent: the field is missing or \<open>null\<close>.\<close>

definition absent :: "(string \<times> json) list \<Rightarrow> string \<Rightarrow> bool" where
  "absent flds k = (map_of flds k = None \<or> map_of flds k = Some JNull)"

section \<open>Properties\<close>

subsection \<open>Basic facts\<close>

lemma bindE_simps [simp]: "bindE (Inl e) f = Inl e" "bindE (Inr x) f = f x"
  by (simp_all add: bindE_def)

lemma bindE_Inr_iff: "bindE m f = Inr y \<longleftrightarrow> (\<exists>x. m = Inr x \<and> f x = Inr y)"
  by (cases m) simp_all

lemma bindE_Inl_iff: "bindE m f = Inl e \<longleftrightarrow> m = Inl e \<or> (\<exists>x. m = Inr x \<and> f x = Inl e)"
  by (cases m) simp_all

subsection \<open>The search adapter\<close>

text \<open>
  Claim C9. With a usable credential, one call of the search operation sends exactly one
  request, which asks for a page of 100 records, and returns the records of that one
  response; the adapter never asks for a second page. When the store keeps to the page
  size it is asked for, the call therefore returns at most 100 records.
\<close>

theorem search_single_bounded_page:
  assumes cred: "get_jira_pat (env_pat w) jira_pat = Inr tok"
      and cap: "\<forall>rq. respects_page_size (search w rq) (req_maxResults rq)"
  shows "fst (run_jira_query w jql field_list jira_pat) =
           [\<lparr>req_jql = jql, req_fields = field_list, req_maxResults = 100, req_bearer = tok\<rparr>]
         \<and> (\<forall>v. snd (run_jira_query w jql field_list jira_pat) = Inr v \<longrightarrow> num_records v \<le> 100)"
proof -
  let ?rq = "\<lparr>req_jql = jql, req_fields = field_list, req_maxResults = 100, req_bearer = tok\<rparr>"
  have c: "respects_page_size (search w ?rq) 100"
    using cap [rule_format, of ?rq] by simp
  show ?thesis
    using cred c
    by (auto simp: run_jira_query_def Let_def respects_page_size_def
             split: option.splits if_splits sum.splits)
qed

theorem search_single_bounded_page_witness:
  "get_jira_pat (env_pat (paged_world (replicate 150 (raw ''X-1'' [])))) (Some ''tok'') = Inr ''tok''
   \<and> fst (run_jira_query (paged_world (replicate 150 (raw ''X-1'' []))) ''project = X'' ''summary''
          (Some ''tok'')) =
     [\<lparr>req_jql = ''project = X'', req_fields = ''summary'', req_maxResults = 100,
       req_bearer = ''tok''\<rparr>]
   \<and> snd (run_jira_query (paged_world (replicate 150 (raw ''X-1'' []))) ''project = X'' ''summary''
          (Some ''tok'')) = Inr (JArr (replicate 100 (raw ''X-1'' [])))
   \<and> num_records (JArr (replicate 100 (raw ''X-1'' []))) \<le> 100"
proof -
  let ?w = "paged_world (replicate 150 (raw ''X-1'' []))"
  have cred: "get_jira_pat (env_pat ?w) (Some ''tok'') = Inr ''tok''"
    by (simp add: get_jira_pat_def py_or_def paged_world_def)
  have cap: "\<forall>rq. respects_page_size (search ?w rq) (req_maxResults rq)"
    by (simp add: respects_page_size_def paged_world_def ok_def num_records_def)
  have res: "snd (run_jira_query ?w ''project = X'' ''summary'' (Some ''tok'')) =
               Inr (JArr (replicate 100 (raw ''X-1'' [])))"
    by (simp add: run_jira_query_def get_jira_pat_def py_or_def paged_world_def ok_def Let_def)
  show ?thesis
    using search_single_bounded_page [OF cred cap, of "''project = X''" "''summary''"] cred res
    by simp
qed

subsection \<open>Label updates\<close>

lemma count_list_append1: "count_list (xs @ [x]) y = count_list xs y + (if x = y then 1 else 0)"
  by (induction xs) auto

lemma count_list_0: "x \<notin> set xs \<Longrightarrow> count_list xs x = 0"
  by (induction xs) auto

lemma count_list_distinct: "distinct xs \<Longrightarrow> x \<in> set xs \<Longrightarrow> count_list xs x = 1"
  by (induction xs) (auto simp: count_list_0)

text \<open>
  Claim C10. Let the store's label list of an issue be \<open>L\<close> (no label twice, as the
  store's label sets are) and let both requests succeed. Adding a label that is in
  \<open>L\<close> returns \<open>L\<close> unchanged, removing a label that is not in \<open>L\<close> returns \<open>L\<close>
  unchanged, and after an add the returned list holds the added label exactly once.
\<close>

theorem label_update_idempotent:
  assumes tok: "get_jira_pat JIRA_PAT jira_pat = Inr tok"
      and get: "get_issue api issue_key ''labels'' = \<lparr>status_code = 200, json_body = Some issue\<rparr>"
      and cur: "subscript issue ''fields'' = Inr f" "dict_get f ''labels'' (JArr []) = Inr (JArr L)"
      and put: "\<forall>payload. put_issue api issue_key payload = 204"
      and dist: "distinct L"
  shows "(JStr label \<in> set L \<longrightarrow>
            update_jira_labels api JIRA_PAT issue_key ''add'' label jira_pat = Inr (JArr L))
       \<and> (JStr label \<notin> set L \<longrightarrow>
            update_jira_labels api JIRA_PAT issue_key ''remove'' label jira_pat = Inr (JArr L))
       \<and> (\<exists>L'. update_jira_labels api JIRA_PAT issue_key ''add'' label jira_pat = Inr (JArr L')
                \<and> count_list L' (JStr label) = 1)"
proof -
  have g: "get_jira_issue api JIRA_PAT issue_key ''labels'' jira_pat = Inr issue"
    using tok get by (simp add: get_jira_issue_def)
  have upd: "update_jira_labels api JIRA_PAT issue_key action label jira_pat =
               (if action = ''add'' then add_label (JArr L) label
                else if action = ''remove'' then remove_label (JArr L) label
                else Inr (JArr L))" for action
    using tok g cur put by (cases "add_label (JArr L) label"; cases "remove_label (JArr L) label")
      (simp_all add: update_jira_labels_def)
  show ?thesis
    using dist by (auto simp: upd count_list_append1 count_list_0 count_list_distinct)
qed

theorem label_update_idempotent_witness:
  "update_jira_labels (label_api [JStr ''a'', JStr ''b'']) None ''X-1'' ''add'' ''a'' (Some ''tok'')
     = Inr (JArr [JStr ''a'', JStr ''b''])
   \<and> update_jira_labels (label_api [JStr ''a'', JStr ''b'']) None ''X-1'' ''remove'' ''c'' (Some ''tok'')
     = Inr (JArr [JStr ''a'', JStr ''b''])
   \<and> count_list [JStr ''a'', JStr ''b''] (JStr ''a'') = 1"
proof -
  let ?api = "label_api [JStr ''a'', JStr ''b'']"
  let ?issue = "JObj [(''key'', JStr ''X-1''), (''fields'', JObj [(''labels'', JArr [JStr ''a'', JStr ''b''])])]"
  have tok: "get_jira_pat None (Some ''tok'') = Inr ''tok''"
    by (simp add: get_jira_pat_def py_or_def)
  have get: "get_issue ?api ''X-1'' ''labels'' = \<lparr>status_code = 200, json_body = Some ?issue\<rparr>"
    by (simp add: label_api_def)
  have cur: "subscript ?issue ''fields'' = Inr (JObj [(''labels'', JArr [JStr ''a'', JStr ''b''])])"
    "dict_get (JObj [(''labels'', JArr [JStr ''a'', JStr ''b''])]) ''labels'' (JArr [])
       = Inr (JArr [JStr ''a'', JStr ''b''])"
    by simp_all
  have put: "\<forall>payload. put_issue ?api ''X-1'' payload = 204"
    by (simp add: label_api_def)
  have dist: "distinct [JStr ''a'', JStr ''b'']" by simp
  have a: "JStr ''a'' \<in> set [JStr ''a'', JStr ''b'']" and c: "JStr ''c'' \<notin> set [JStr ''a'', JStr ''b'']"
    by simp_all
  from label_update_idempotent [OF tok get cur put dist, of "''a''"] a
  have 1: "update_jira_labels ?api None ''X-1'' ''add'' ''a'' (Some ''tok'') = Inr (JArr [JStr ''a'', JStr ''b''])"
    by blast
  from label_update_idempotent [OF tok get cur put dist, of "''c''"] c
  have 2: "update_jira_labels ?api None ''X-1'' ''remove'' ''c'' (Some ''tok'') = Inr (JArr [JStr ''a'', JStr ''b''])"
    by blast
  show ?thesis using 1 2 by simp
qed

subsection \<open>Strategy to Request linkage\<close>

lemma entry_okE: "entry_ok v \<Longrightarrow> v = None \<or> (\<exists>e. v = Some (JObj e))"
  by (cases v rule: entry_ok.cases) simp_all

lemma find_rfe_step:
  assumes "wf_link l"
  shows "find_rfe ks (l # rest) =
           (case link_match ks l of Some k \<Rightarrow> Inr (Some k) | None \<Rightarrow> find_rfe ks rest)"
proof -
  from assms obtain kvs where l: "l = JObj kvs"
    and i: "entry_ok (map_of kvs ''inwardIssue'')" and o: "entry_ok (map_of kvs ''outwardIssue'')"
    by (auto simp: wf_link_def split: json.splits)
  from entry_okE [OF i] entry_okE [OF o] show ?thesis
    by (auto simp: l link_match_def entry_key_def split: option.splits)
qed

lemma find_rfe_skip:
  "\<forall>p \<in> set pre. wf_link p \<and> link_match ks p = None \<Longrightarrow> find_rfe ks (pre @ rest) = find_rfe ks rest"
  by (induction pre) (simp_all add: find_rfe_step del: find_rfe.simps)

text \<open>
  Claim C8. When the links of a Strategy before some link match no known Request and
  that link matches the Request \<open>k\<close>, the scan returns \<open>k\<close> whatever follows in the list
  (further matches included) and raises nothing, and the Strategy is emitted with
  \<open>rfe_key = k\<close> and filed under \<open>k\<close>. The scan is a function of the store's response
  and the Request keys, so a second run over the same response picks the same Request.
\<close>

theorem strat_linked_to_first_match:
  assumes b: "build_issue_data strat = Inr d"
      and l: "strat_links strat = Inr (pre @ link # rest)"
      and pre: "\<forall>p \<in> set pre. wf_link p \<and> link_match rfe_keys p = None"
      and wf: "wf_link link"
      and m: "link_match rfe_keys link = Some k"
      and ne: "k \<noteq> []"
  shows "find_rfe rfe_keys (pre @ link # rest) = Inr (Some k)
       \<and> rfe_first_strat_body rfe_keys strat s =
           Inr (send_sse_event ''strat''
                  (Node (set_item (set_item d ''rfe_key'' (JStr k)) ''epics'' (JArr [])))
                  (s\<lparr>strat_keys_list := strat_keys_list s @ [key d],
                     strats_by_rfe := dict_append (strats_by_rfe s) k
                        (set_item (set_item d ''rfe_key'' (JStr k)) ''epics'' (JArr [])),
                     total_strats := total_strats s + 1\<rparr>))"
proof -
  have f: "find_rfe rfe_keys (pre @ link # rest) = Inr (Some k)"
    using find_rfe_skip [OF pre, of "link # rest"] find_rfe_step [OF wf, of rfe_keys rest] m
    by (simp del: find_rfe.simps)
  show ?thesis
    using f b l ne by (simp add: rfe_first_strat_body_def Let_def)
qed

theorem strat_linked_to_first_match_witness:
  "find_rfe [''RHAIRFE-1'', ''RHAIRFE-2''] [link_a, link_b, link_c] = Inr (Some ''RHAIRFE-2'')
   \<and> map fst (out (projr (rfe_first_strat_body [''RHAIRFE-1'', ''RHAIRFE-2'']
               (raw ''RHAISTRAT-7'' [(''issuelinks'', JArr [link_a, link_b, link_c])]) init_st)))
       = [''strat'']
   \<and> strats_by_rfe (projr (rfe_first_strat_body [''RHAIRFE-1'', ''RHAIRFE-2'']
               (raw ''RHAISTRAT-7'' [(''issuelinks'', JArr [link_a, link_b, link_c])]) init_st))
       = [(''RHAIRFE-2'', [set_item (set_item (projr (build_issue_data
              (raw ''RHAISTRAT-7'' [(''issuelinks'', JArr [link_a, link_b, link_c])])))
              ''rfe_key'' (JStr ''RHAIRFE-2'')) ''epics'' (JArr [])])]"
proof -
  let ?strat = "raw ''RHAISTRAT-7'' [(''issuelinks'', JArr [link_a, link_b, link_c])]"
  let ?ks = "[''RHAIRFE-1'', ''RHAIRFE-2'']"
  obtain d where b: "build_issue_data ?strat = Inr d"
    by (simp add: build_issue_data_def raw_def)
  have l: "strat_links ?strat = Inr ([link_a] @ link_b # [link_c])"
    by (simp add: strat_links_def raw_def)
  have pre: "\<forall>p \<in> set [link_a]. wf_link p \<and> link_match ?ks p = None"
    by (simp add: link_a_def wf_link_def link_match_def entry_key_def key_in_def)
  have wf: "wf_link link_b"
    by (simp add: link_b_def wf_link_def)
  have m: "link_match ?ks link_b = Some ''RHAIRFE-2''"
    by (simp add: link_b_def link_match_def entry_key_def key_in_def)
  have ne: "''RHAIRFE-2'' \<noteq> []" by simp
  note th = strat_linked_to_first_match [OF b l pre wf m ne, of init_st]
  from th have 1: "find_rfe ?ks [link_a, link_b, link_c] = Inr (Some ''RHAIRFE-2'')"
    by (simp del: find_rfe.simps)
  from th have 2: "rfe_first_strat_body ?ks ?strat init_st =
           Inr (send_sse_event ''strat''
                  (Node (set_item (set_item d ''rfe_key'' (JStr ''RHAIRFE-2'')) ''epics'' (JArr [])))
                  (init_st\<lparr>strat_keys_list := strat_keys_list init_st @ [key d],
                     strats_by_rfe := dict_append (strats_by_rfe init_st) ''RHAIRFE-2''
                        (set_item (set_item d ''rfe_key'' (JStr ''RHAIRFE-2'')) ''epics'' (JArr [])),
                     total_strats := total_strats init_st + 1\<rparr>))"
    by blast
  show ?thesis
    unfolding 1 2 b by (simp add: send_sse_event_def init_st_def)
qed

subsection \<open>The normalizer\<close>

text \<open>
  What the normalizer does on a record whose optional parts are missing: it returns the
  documented defaults, and for the assignee and the reporter also when the field is
  \<open>null\<close>.
\<close>

lemma normalizer_defaults:
  assumes "absent flds ''assignee''" "absent flds ''reporter''"
      and "map_of flds ''priority'' = None" "map_of flds ''status'' = None"
      and "map_of flds ''labels'' = None" "map_of flds ''comment'' = None"
      and "map_of flds ''components'' = None"
  shows "\<exists>d. build_issue_data (raw k flds) = Inr d
           \<and> assignee d = JStr ''Unassigned'' \<and> assignee_username d = JNull
           \<and> reporter d = JStr ''Unknown'' \<and> priority d = JStr ''Undefined''
           \<and> labels d = JArr [] \<and> comments d = [] \<and> key d = JStr k"
  using assms by (auto simp: build_issue_data_def raw_def absent_def)

text \<open>
  Claim C7. The claim is that a raw record without assignee, reporter and priority is
  normalized to the defaults and never raises. The store renders an unset field as
  \<open>null\<close>. On such a record the normalizer raises AttributeError for the priority,
  although the same record without the \<open>priority\<close> member yields the default
  \<open>Undefined\<close>, and although a \<open>null\<close> assignee yields \<open>Unassigned\<close>.
\<close>

theorem normalizer_null_priority_raises:
  "build_issue_data (raw ''RHOAIENG-1''
      [(''summary'', JStr ''Fix it''), (''status'', JObj [(''name'', JStr ''New'')]),
       (''priority'', JNull), (''assignee'', JNull), (''reporter'', JNull),
       (''labels'', JArr []), (''components'', JArr [])]) = Inl AttributeError
   \<and> priority (projr (build_issue_data (raw ''RHOAIENG-1''
      [(''summary'', JStr ''Fix it''), (''status'', JObj [(''name'', JStr ''New'')]),
       (''assignee'', JNull), (''reporter'', JNull),
       (''labels'', JArr []), (''components'', JArr [])]))) = JStr ''Undefined''
   \<and> assignee (projr (build_issue_data (raw ''RHOAIENG-1''
      [(''summary'', JStr ''Fix it''), (''status'', JObj [(''name'', JStr ''New'')]),
       (''assignee'', JNull), (''reporter'', JNull),
       (''labels'', JArr []), (''components'', JArr [])]))) = JStr ''Unassigned''"
  by (simp add: build_issue_data_def raw_def)

end
